theory Spec2Isabelle
  imports Main "HOL-Library.AList"
begin

section \<open>Values, errors and the library interface\<close>

text \<open>
  JavaScript values that cross an object boundary in the controllers: the properties of
  the object returned by \<open>generateTemporaryToken\<close>, of a selected user document and
  of the \<open>data\<close> member of an \<open>ApiResponse\<close>. A missing property
  (\<open>undefined\<close>) is \<open>None\<close> of the lookup.
\<close>

datatype jsval =
    Str string
  | Num nat
  | Bool bool
  | Oid nat
  | Date nat
  | Null
  | Obj "(string \<times> jsval) list"

type_synonym obj = "(string \<times> jsval) list"

text \<open>
  \<open>ApiError statusCode message\<close> is the class of \<open>utils/api-error.js\<close>;
  \<open>Thrown name\<close> is any other exception, by the name of its class.
\<close>

datatype error = ApiError nat string | Thrown string

text \<open>
  The packages the code calls, as functions. \<open>sha256\<close> is
  \<open>crypto.createHash("sha256").update(s).digest("hex")\<close>; \<open>bcrypt_hash p\<close> is
  \<open>bcrypt.hash(p, 10)\<close>; \<open>jwt_sign payload secret expiresIn now\<close> is
  \<open>jwt.sign\<close> at clock \<open>now\<close>; \<open>jwt_decode token secret\<close> is the part of
  \<open>jwt.verify\<close> that checks the signature and parses the payload, giving the payload
  and its \<open>exp\<close> (in seconds), or \<open>None\<close> for a malformed token or a bad signature;
  \<open>objectId s\<close> is \<open>new mongoose.Types.ObjectId(s)\<close>, \<open>None\<close> where it throws.
\<close>

record claims =
  sub :: nat
  claim_email :: "string option"
  claim_username :: "string option"

record lib =
  sha256 :: "string \<Rightarrow> string"
  bcrypt_hash :: "string \<Rightarrow> string"
  bcrypt_compare :: "string \<Rightarrow> string \<Rightarrow> bool"
  jwt_sign :: "claims \<Rightarrow> string \<Rightarrow> string \<Rightarrow> nat \<Rightarrow> string"
  jwt_decode :: "string \<Rightarrow> string \<Rightarrow> (claims \<times> nat) option"
  objectId :: "string \<Rightarrow> nat option"

text \<open>\<open>process.env\<close>.\<close>

record env =
  ACCESS_TOKEN_SECRET :: string
  ACCESS_TOKEN_EXPIRY :: string
  REFRESH_TOKEN_SECRET :: string
  REFRESH_TOKEN_EXPIRY :: string
  FORGOT_PASSWORD_REDIRECT_URL :: string

text \<open>
  \<open>jwt.verify(token, secret)\<close> at clock \<open>now\<close> (milliseconds, as \<open>Date.now()\<close>):
  the token is rejected when its signature is bad, when it is malformed, or when the
  clock in seconds has reached \<open>exp\<close>.
\<close>

definition jwt_verify :: "lib \<Rightarrow> string \<Rightarrow> string \<Rightarrow> nat \<Rightarrow> claims option" where
  "jwt_verify L token secret now =
     (case jwt_decode L token secret of
        None \<Rightarrow> None
      | Some (payload, exp) \<Rightarrow> if now div 1000 \<ge> exp then None else Some payload)"

section \<open>The user model\<close>

text \<open>
  The fields of \<open>userSchema\<close> that the controllers and the middleware read or write
  (\<open>avatar\<close>, \<open>fullName\<close> and the timestamps are left out). \<open>uid\<close> is \<open>_id\<close>;
  a date is its time in milliseconds; an unset optional field is \<open>None\<close>.
\<close>

record user =
  uid :: nat
  username :: string
  email :: string
  password :: string
  isEmailVerified :: bool
  refreshToken :: "string option"
  forgotPasswordToken :: "string option"
  forgotPasswordExpiry :: "nat option"
  emailVerificationToken :: "string option"
  emailVerificationExpiry :: "nat option"

datatype path =
    Password
  | IsEmailVerified
  | RefreshToken
  | ForgotPasswordToken
  | ForgotPasswordExpiry
  | EmailVerificationToken
  | EmailVerificationExpiry

text \<open>
  A document in memory: the field values and the paths modified since it was loaded.
  Assigning a field marks its path modified when the value differs from the current one.
\<close>

record doc =
  doc_fields :: user
  modifiedPaths :: "path list"

definition doc_of :: "user \<Rightarrow> doc" where
  "doc_of u = \<lparr>doc_fields = u, modifiedPaths = []\<rparr>"

definition isModified :: "doc \<Rightarrow> path \<Rightarrow> bool" where
  "isModified d p = (p \<in> set (modifiedPaths d))"

definition markModified :: "path \<Rightarrow> doc \<Rightarrow> doc" where
  "markModified p d = d\<lparr>modifiedPaths := List.insert p (modifiedPaths d)\<rparr>"

definition set_password :: "string \<Rightarrow> doc \<Rightarrow> doc" where
  "set_password v d =
     (if password (doc_fields d) = v then d
      else markModified Password (d\<lparr>doc_fields := (doc_fields d)\<lparr>password := v\<rparr>\<rparr>))"

definition set_isEmailVerified :: "bool \<Rightarrow> doc \<Rightarrow> doc" where
  "set_isEmailVerified v d =
     (if isEmailVerified (doc_fields d) = v then d
      else markModified IsEmailVerified (d\<lparr>doc_fields := (doc_fields d)\<lparr>isEmailVerified := v\<rparr>\<rparr>))"

definition set_refreshToken :: "string option \<Rightarrow> doc \<Rightarrow> doc" where
  "set_refreshToken v d =
     (if refreshToken (doc_fields d) = v then d
      else markModified RefreshToken (d\<lparr>doc_fields := (doc_fields d)\<lparr>refreshToken := v\<rparr>\<rparr>))"

definition set_forgotPasswordToken :: "string option \<Rightarrow> doc \<Rightarrow> doc" where
  "set_forgotPasswordToken v d =
     (if forgotPasswordToken (doc_fields d) = v then d
      else markModified ForgotPasswordToken
             (d\<lparr>doc_fields := (doc_fields d)\<lparr>forgotPasswordToken := v\<rparr>\<rparr>))"

definition set_forgotPasswordExpiry :: "nat option \<Rightarrow> doc \<Rightarrow> doc" where
  "set_forgotPasswordExpiry v d =
     (if forgotPasswordExpiry (doc_fields d) = v then d
      else markModified ForgotPasswordExpiry
             (d\<lparr>doc_fields := (doc_fields d)\<lparr>forgotPasswordExpiry := v\<rparr>\<rparr>))"

definition set_emailVerificationToken :: "string option \<Rightarrow> doc \<Rightarrow> doc" where
  "set_emailVerificationToken v d =
     (if emailVerificationToken (doc_fields d) = v then d
      else markModified EmailVerificationToken
             (d\<lparr>doc_fields := (doc_fields d)\<lparr>emailVerificationToken := v\<rparr>\<rparr>))"

definition set_emailVerificationExpiry :: "nat option \<Rightarrow> doc \<Rightarrow> doc" where
  "set_emailVerificationExpiry v d =
     (if emailVerificationExpiry (doc_fields d) = v then d
      else markModified EmailVerificationExpiry
             (d\<lparr>doc_fields := (doc_fields d)\<lparr>emailVerificationExpiry := v\<rparr>\<rparr>))"

text \<open>
  \<open>userSchema.pre("save")\<close>: the password is hashed only when its path is modified.
\<close>

definition pre_save :: "lib \<Rightarrow> doc \<Rightarrow> doc" where
  "pre_save L d =
     (if \<not> isModified d Password then d
      else d\<lparr>doc_fields := (doc_fields d)\<lparr>password := bcrypt_hash L (password (doc_fields d))\<rparr>\<rparr>)"

section \<open>The users collection\<close>

text \<open>
  The collection is the list of its documents in natural order: \<open>findOne\<close> returns the
  first match. \<open>save\<close> runs the pre-save hook and then writes the modified paths, and
  only them, to the stored document with the same \<open>_id\<close> (a controller saves a
  document it has just loaded or created, so that document is there). No validator of
  the schema applies to a path that a controller modifies on a loaded document, so a
  save with \<open>validateBeforeSave\<close> on or off does the same.
\<close>

definition findOne :: "(user \<Rightarrow> bool) \<Rightarrow> user list \<Rightarrow> user option" where
  "findOne P us = find P us"

definition findById :: "user list \<Rightarrow> nat \<Rightarrow> user option" where
  "findById us i = findOne (\<lambda>u. uid u = i) us"

fun updateOne :: "nat \<Rightarrow> (user \<Rightarrow> user) \<Rightarrow> user list \<Rightarrow> user list" where
  "updateOne i f [] = []"
| "updateOne i f (u # us) = (if uid u = i then f u # us else u # updateOne i f us)"

fun copy_path :: "user \<Rightarrow> path \<Rightarrow> user \<Rightarrow> user" where
  "copy_path src Password dst = dst\<lparr>password := password src\<rparr>"
| "copy_path src IsEmailVerified dst = dst\<lparr>isEmailVerified := isEmailVerified src\<rparr>"
| "copy_path src RefreshToken dst = dst\<lparr>refreshToken := refreshToken src\<rparr>"
| "copy_path src ForgotPasswordToken dst = dst\<lparr>forgotPasswordToken := forgotPasswordToken src\<rparr>"
| "copy_path src ForgotPasswordExpiry dst = dst\<lparr>forgotPasswordExpiry := forgotPasswordExpiry src\<rparr>"
| "copy_path src EmailVerificationToken dst =
     dst\<lparr>emailVerificationToken := emailVerificationToken src\<rparr>"
| "copy_path src EmailVerificationExpiry dst =
     dst\<lparr>emailVerificationExpiry := emailVerificationExpiry src\<rparr>"

definition save :: "lib \<Rightarrow> doc \<Rightarrow> user list \<Rightarrow> user list" where
  "save L d us =
     (let d' = pre_save L d
      in updateOne (uid (doc_fields d')) (fold (copy_path (doc_fields d')) (modifiedPaths d')) us)"

text \<open>
  \<open>User.create\<close>: a new document gets a fresh \<open>_id\<close> and the schema defaults,
  the paths it was given count as modified, so the pre-save hook hashes the password,
  and the document is inserted; a required field that is missing fails validation. The
  schema's \<open>lowercase\<close> and \<open>trim\<close> setters on \<open>username\<close> and \<open>email\<close>
  are not modelled: the model is that of requests whose \<open>username\<close> and \<open>email\<close>
  are already trimmed and in lower case.
\<close>

definition fresh_id :: "user list \<Rightarrow> nat" where
  "fresh_id us = Suc (fold max (map uid us) 0)"

definition create ::
  "lib \<Rightarrow> user list \<Rightarrow> string option \<Rightarrow> string option \<Rightarrow> string option
     \<Rightarrow> error + (user list \<times> user)" where
  "create L us email' password' username' =
     (case (email', password', username') of
        (Some e, Some p, Some n) \<Rightarrow>
          (let d = \<lparr>doc_fields =
                     \<lparr>uid = fresh_id us, username = n, email = e, password = p,
                      isEmailVerified = False, refreshToken = None,
                      forgotPasswordToken = None, forgotPasswordExpiry = None,
                      emailVerificationToken = None, emailVerificationExpiry = None\<rparr>,
                    modifiedPaths = [Password, IsEmailVerified]\<rparr>;
               u = doc_fields (pre_save L d)
           in Inr (us @ [u], u))
      | _ \<Rightarrow> Inl (Thrown ''ValidationError''))"

text \<open>
  \<open>userSchema.methods.generateTemporaryToken\<close>, with \<open>rnd\<close> the value of
  \<open>crypto.randomBytes(20).toString("hex")\<close> and \<open>now\<close> the value of \<open>Date.now()\<close>.
  The returned object has the keys the source writes.
\<close>

definition generateTemporaryToken :: "lib \<Rightarrow> string \<Rightarrow> nat \<Rightarrow> obj" where
  "generateTemporaryToken L rnd now =
     (let unHashedToken = rnd;
          HashedToken = sha256 L unHashedToken;
          tokenExpiry = now + (20 * 60 * 1000)
      in [(''unHashedToken'', Str unHashedToken),
          (''HashedToken'', Str HashedToken),
          (''tokenExpiry'', Num tokenExpiry)])"

text \<open>
  Casting an assigned value to the schema type of the field. The controllers assign a
  property of the token object or \<open>undefined\<close>; \<open>undefined\<close> unsets the field.
\<close>

fun cast_String :: "jsval option \<Rightarrow> string option" where
  "cast_String (Some (Str s)) = Some s"
| "cast_String _ = None"

fun cast_Date :: "jsval option \<Rightarrow> nat option" where
  "cast_Date (Some (Num n)) = Some n"
| "cast_Date (Some (Date n)) = Some n"
| "cast_Date _ = None"

text \<open>
  A value interpolated in a template literal; the controllers interpolate a string
  property of the token object, which reads \<open>undefined\<close> when the property is missing.
\<close>

fun template :: "jsval option \<Rightarrow> string" where
  "template (Some (Str s)) = s"
| "template _ = ''undefined''"

section \<open>Requests, responses and the mail collaborator\<close>

text \<open>
  A request as the handlers read it: body, route parameters, cookies and headers by
  name, and \<open>req.user\<close>, the principal attached by \<open>verifyJWT\<close>.
\<close>

record request =
  body :: "(string \<times> string) list"
  params :: "(string \<times> string) list"
  cookies :: "(string \<times> string) list"
  headers :: "(string \<times> string) list"
  protocol :: string
  host :: string
  req_user :: "obj option"

text \<open>\<open>utils/api-response.js\<close>: \<open>success\<close> is computed from the status code.\<close>

record apiResponse =
  statusCode :: nat
  data :: obj
  message :: string
  success :: bool

definition ApiResponse :: "nat \<Rightarrow> obj \<Rightarrow> string \<Rightarrow> apiResponse" where
  "ApiResponse c d m = \<lparr>statusCode = c, data = d, message = m, success = (c < 400)\<rparr>"

record response =
  status :: nat
  cookie :: "(string \<times> string) list"
  json :: apiResponse

record mail =
  mail_to :: string
  subject :: string
  link :: string

text \<open>
  The state the controllers act on: the users collection and the mails handed to the
  transport. \<open>sendEmail\<close> catches a transport failure and logs it, so for its caller it
  always returns.
\<close>

record sys =
  users :: "user list"
  sent :: "mail list"

definition sendEmail :: "string \<Rightarrow> string \<Rightarrow> string \<Rightarrow> mail list \<Rightarrow> mail list" where
  "sendEmail to' subject' url ms = ms @ [\<lparr>mail_to = to', subject = subject', link = url\<rparr>]"

text \<open>JavaScript truthiness of an optional string, and \<open>a || b\<close> on two of them.\<close>

fun truthy :: "string option \<Rightarrow> bool" where
  "truthy None = False"
| "truthy (Some s) = (s \<noteq> [])"

definition js_or :: "string option \<Rightarrow> string option \<Rightarrow> string option" where
  "js_or a b = (if truthy a then a else b)"

text \<open>
  A user document as a plain object, and \<open>.select("-a -b ...")\<close>, which drops the
  named paths from it.
\<close>

fun entry :: "string \<Rightarrow> jsval option \<Rightarrow> obj" where
  "entry k None = []"
| "entry k (Some v) = [(k, v)]"

definition toObject :: "user \<Rightarrow> obj" where
  "toObject u =
     [(''_id'', Oid (uid u)),
      (''username'', Str (username u)),
      (''email'', Str (email u)),
      (''password'', Str (password u)),
      (''isEmailVerified'', Bool (isEmailVerified u))]
     @ entry ''refreshToken'' (map_option Str (refreshToken u))
     @ entry ''forgotPasswordToken'' (map_option Str (forgotPasswordToken u))
     @ entry ''forgotPasswordExpiry'' (map_option Date (forgotPasswordExpiry u))
     @ entry ''emailVerificationToken'' (map_option Str (emailVerificationToken u))
     @ entry ''emailVerificationExpiry'' (map_option Date (emailVerificationExpiry u))"

definition select_minus :: "string list \<Rightarrow> obj \<Rightarrow> obj" where
  "select_minus names ob = filter (\<lambda>kv. fst kv \<notin> set names) ob"

text \<open>
  The projection \<open>"-password -refreshToken -emailVerificationToken
  -emailVerificationExpiry"\<close> used by \<open>registerUser\<close>, \<open>login\<close> and \<open>verifyJWT\<close>.
\<close>

definition sanitized :: "user \<Rightarrow> obj" where
  "sanitized u =
     select_minus [''password'', ''refreshToken'', ''emailVerificationToken'',
                   ''emailVerificationExpiry''] (toObject u)"

section \<open>Token methods of the user schema\<close>

definition isPasswordCorrect :: "lib \<Rightarrow> user \<Rightarrow> string option \<Rightarrow> error + bool" where
  "isPasswordCorrect L u password' =
     (case password' of
        None \<Rightarrow> Inl (Thrown ''Error'')
      | Some p \<Rightarrow> Inr (bcrypt_compare L p (password u)))"

definition generateAccessToken :: "lib \<Rightarrow> env \<Rightarrow> nat \<Rightarrow> user \<Rightarrow> string" where
  "generateAccessToken L E now u =
     jwt_sign L \<lparr>sub = uid u, claim_email = Some (email u), claim_username = Some (username u)\<rparr>
       (ACCESS_TOKEN_SECRET E) (ACCESS_TOKEN_EXPIRY E) now"

definition generateRefreshToken :: "lib \<Rightarrow> env \<Rightarrow> nat \<Rightarrow> user \<Rightarrow> string" where
  "generateRefreshToken L E now u =
     jwt_sign L \<lparr>sub = uid u, claim_email = None, claim_username = None\<rparr>
       (REFRESH_TOKEN_SECRET E) (REFRESH_TOKEN_EXPIRY E) now"

section \<open>Controllers\<close>

text \<open>
  Each controller is the async function the source passes to \<open>asyncHandler\<close>: \<open>Inl\<close>
  is the exception it throws, \<open>Inr\<close> the new state and the response it sends. \<open>now\<close>
  is \<open>Date.now()\<close> during the request and \<open>rnd\<close> the random token drawn by it.
  Every \<open>throw\<close> of a controller comes before its first write to the collection, so
  \<open>Inl\<close> leaves the state as it was.
\<close>

text \<open>
  \<open>generateAccessAndRefreshTokens\<close>: everything thrown inside its \<open>try\<close>, such as the
  dereference of a user that is not found, is rethrown as \<open>ApiError 500\<close>.
\<close>

definition generateAccessAndRefreshTokens ::
  "lib \<Rightarrow> env \<Rightarrow> nat \<Rightarrow> user list \<Rightarrow> nat \<Rightarrow> error + (user list \<times> string \<times> string)" where
  "generateAccessAndRefreshTokens L E now us userId =
     (case findById us userId of
        None \<Rightarrow> Inl (ApiError 500 ''Something went wrong while generating access token'')
      | Some u \<Rightarrow>
          (let accessToken = generateAccessToken L E now u;
               refreshToken' = generateRefreshToken L E now u;
               d = set_refreshToken (Some refreshToken') (doc_of u)
           in Inr (save L d us, accessToken, refreshToken')))"

definition registerUser ::
  "lib \<Rightarrow> nat \<Rightarrow> string \<Rightarrow> sys \<Rightarrow> request \<Rightarrow> error + (sys \<times> response)" where
  "registerUser L now rnd s req =
     (let email' = map_of (body req) ''email'';
          username' = map_of (body req) ''username'';
          password' = map_of (body req) ''password''
      in case findOne (\<lambda>u. Some (username u) = username' \<or> Some (email u) = email') (users s) of
           Some existedUser \<Rightarrow>
             Inl (ApiError 409 ''User with email or username already exists'')
         | None \<Rightarrow>
            (case create L (users s) email' password' username' of
               Inl e \<Rightarrow> Inl e
             | Inr (us1, u) \<Rightarrow>
                (let tok = generateTemporaryToken L rnd now;
                     unHashedToken = map_of tok ''unHashedToken'';
                     hashedToken = map_of tok ''hashedToken'';
                     tokenExpiry = map_of tok ''tokenExpiry'';
                     d = set_emailVerificationExpiry (cast_Date tokenExpiry)
                           (set_emailVerificationToken (cast_String hashedToken) (doc_of u));
                     us2 = save L d us1;
                     sent' = sendEmail (email (doc_fields d)) ''Please verify your email''
                               (protocol req @ ''://'' @ host req
                                  @ ''/api/v1/users/verify-email/'' @ template unHashedToken)
                               (sent s)
                 in case findById us2 (uid u) of
                      None \<Rightarrow> Inl (ApiError 500 ''Something went wrong while registering a user'')
                    | Some createdUser \<Rightarrow>
                        Inr (\<lparr>users = us2, sent = sent'\<rparr>,
                             \<lparr>status = 201, cookie = [],
                              json = ApiResponse 200 [(''user'', Obj (sanitized createdUser))]
                                ''User registered successfully and verification email has been sent on your email''\<rparr>))))"

definition login :: "lib \<Rightarrow> env \<Rightarrow> nat \<Rightarrow> sys \<Rightarrow> request \<Rightarrow> error + (sys \<times> response)" where
  "login L E now s req =
     (let email' = map_of (body req) ''email'';
          password' = map_of (body req) ''password''
      in if \<not> truthy email' then Inl (ApiError 400 ''Email is required'')
         else case findOne (\<lambda>u. Some (email u) = email') (users s) of
           None \<Rightarrow> Inl (ApiError 400 ''User does not exist'')
         | Some u \<Rightarrow>
            (case isPasswordCorrect L u password' of
               Inl e \<Rightarrow> Inl e
             | Inr isPasswordValid \<Rightarrow>
                 if \<not> isPasswordValid then Inl (ApiError 400 ''Invalid credentials'')
                 else case generateAccessAndRefreshTokens L E now (users s) (uid u) of
                   Inl e \<Rightarrow> Inl e
                 | Inr (us1, accessToken, refreshToken') \<Rightarrow>
                    (let loggedInUser =
                           (case findById us1 (uid u) of
                              None \<Rightarrow> Null
                            | Some v \<Rightarrow> Obj (sanitized v))
                     in Inr (s\<lparr>users := us1\<rparr>,
                             \<lparr>status = 200,
                              cookie = [(''accessToken'', accessToken),
                                        (''refreshToken'', refreshToken')],
                              json = ApiResponse 200
                                [(''user'', loggedInUser),
                                 (''accessToken'', Str accessToken),
                                 (''refreshToken'', Str refreshToken')]
                                ''User logged in successfully''\<rparr>))))"

text \<open>
  The query of \<open>verifyEmail\<close> and \<open>resetForgotPassword\<close>: the stored hash equals
  the given one and the stored expiry is greater than \<open>now\<close>.
\<close>

definition token_matches :: "string \<Rightarrow> nat \<Rightarrow> string option \<Rightarrow> nat option \<Rightarrow> bool" where
  "token_matches hashedToken now storedToken storedExpiry =
     (storedToken = Some hashedToken \<and>
      (case storedExpiry of None \<Rightarrow> False | Some e \<Rightarrow> e > now))"

definition verifyEmail :: "lib \<Rightarrow> nat \<Rightarrow> sys \<Rightarrow> request \<Rightarrow> error + (sys \<times> response)" where
  "verifyEmail L now s req =
     (let verificationToken = map_of (params req) ''verificationToken''
      in case verificationToken of
           None \<Rightarrow> Inl (ApiError 400 ''Email verification token is missing'')
         | Some vt \<Rightarrow>
             if vt = [] then Inl (ApiError 400 ''Email verification token is missing'')
             else
               (let hashedToken = sha256 L vt
                in case findOne (\<lambda>u. token_matches hashedToken now
                                        (emailVerificationToken u) (emailVerificationExpiry u))
                          (users s) of
                     None \<Rightarrow> Inl (ApiError 400 ''Token is invalid or expired'')
                   | Some u \<Rightarrow>
                      (let d = set_isEmailVerified True
                                 (set_emailVerificationExpiry None
                                    (set_emailVerificationToken None (doc_of u)))
                       in Inr (s\<lparr>users := save L d (users s)\<rparr>,
                               \<lparr>status = 200, cookie = [],
                                json = ApiResponse 200 [(''isEmailVerified'', Bool True)]
                                         ''Email is verified''\<rparr>))))"

text \<open>
  \<open>refreshAccessToken\<close>: the body of its \<open>try\<close> block first, then the controller,
  whose \<open>catch\<close> replaces whatever the block throws by one \<open>ApiError 401\<close>.
\<close>

definition refreshAccessToken_try ::
  "lib \<Rightarrow> env \<Rightarrow> nat \<Rightarrow> sys \<Rightarrow> string \<Rightarrow> error + (sys \<times> response)" where
  "refreshAccessToken_try L E now s incomingRefreshToken =
     (case jwt_verify L incomingRefreshToken (REFRESH_TOKEN_SECRET E) now of
        None \<Rightarrow> Inl (Thrown ''JsonWebTokenError'')
      | Some decodedToken \<Rightarrow>
         (case findById (users s) (sub decodedToken) of
            None \<Rightarrow> Inl (ApiError 401 ''Invalid refresh token'')
          | Some u \<Rightarrow>
              if Some incomingRefreshToken \<noteq> refreshToken u
              then Inl (ApiError 401 ''Refresh token is expired'')
              else case generateAccessAndRefreshTokens L E now (users s) (uid u) of
                Inl e \<Rightarrow> Inl e
              | Inr (us1, accessToken, newRefreshToken) \<Rightarrow>
                 (let d = set_refreshToken (Some newRefreshToken) (doc_of u);
                      us2 = save L d us1
                  in Inr (s\<lparr>users := us2\<rparr>,
                          \<lparr>status = 200,
                           cookie = [(''accessToken'', accessToken),
                                     (''refreshToken'', newRefreshToken)],
                           json = ApiResponse 200
                             [(''accessToken'', Str accessToken),
                              (''refreshToken'', Str newRefreshToken)]
                             ''Access token refreshed''\<rparr>))))"

definition refreshAccessToken ::
  "lib \<Rightarrow> env \<Rightarrow> nat \<Rightarrow> sys \<Rightarrow> request \<Rightarrow> error + (sys \<times> response)" where
  "refreshAccessToken L E now s req =
     (let incomingRefreshToken =
            js_or (map_of (cookies req) ''refreshToken'') (map_of (body req) ''refreshToken'')
      in case incomingRefreshToken of
           None \<Rightarrow> Inl (ApiError 401 ''Unauthorized access'')
         | Some t \<Rightarrow>
             if t = [] then Inl (ApiError 401 ''Unauthorized access'')
             else case refreshAccessToken_try L E now s t of
               Inl e \<Rightarrow> Inl (ApiError 401 ''Invalid refresh token'')
             | Inr r \<Rightarrow> Inr r)"

definition forgotPasswordRequest ::
  "lib \<Rightarrow> env \<Rightarrow> nat \<Rightarrow> string \<Rightarrow> sys \<Rightarrow> request \<Rightarrow> error + (sys \<times> response)" where
  "forgotPasswordRequest L E now rnd s req =
     (let email' = map_of (body req) ''email''
      in case findOne (\<lambda>u. Some (email u) = email') (users s) of
           None \<Rightarrow> Inl (ApiError 404 ''User does not exist'')
         | Some u \<Rightarrow>
            (let tok = generateTemporaryToken L rnd now;
                 unHashedToken = map_of tok ''unHashedToken'';
                 hashedToken = map_of tok ''hashedToken'';
                 tokenExpiry = map_of tok ''tokenExpiry'';
                 d = set_forgotPasswordExpiry (cast_Date tokenExpiry)
                       (set_forgotPasswordToken (cast_String hashedToken) (doc_of u));
                 us1 = save L d (users s);
                 sent' = sendEmail (email (doc_fields d)) ''Password reset request''
                           (FORGOT_PASSWORD_REDIRECT_URL E @ ''/'' @ template unHashedToken)
                           (sent s)
             in Inr (\<lparr>users = us1, sent = sent'\<rparr>,
                     \<lparr>status = 200, cookie = [],
                      json = ApiResponse 200 []
                               ''Password reset mail has been sent on your mail id''\<rparr>)))"

text \<open>
  \<open>resetForgotPassword\<close>. Hashing an absent \<open>resetToken\<close> throws in
  \<open>crypto\<close>; an absent \<open>newPassword\<close> makes \<open>bcrypt.hash\<close> throw in the pre-save
  hook, so that nothing is written.
\<close>

definition resetForgotPassword ::
  "lib \<Rightarrow> nat \<Rightarrow> sys \<Rightarrow> request \<Rightarrow> error + (sys \<times> response)" where
  "resetForgotPassword L now s req =
     (let resetToken = map_of (params req) ''resetToken'';
          newPassword = map_of (body req) ''newPassword''
      in case resetToken of
           None \<Rightarrow> Inl (Thrown ''TypeError'')
         | Some rt \<Rightarrow>
            (let hashedToken = sha256 L rt
             in case findOne (\<lambda>u. token_matches hashedToken now
                                     (forgotPasswordToken u) (forgotPasswordExpiry u))
                       (users s) of
                  None \<Rightarrow> Inl (ApiError 489 ''Token is invalid or expired'')
                | Some u \<Rightarrow>
                   (case newPassword of
                      None \<Rightarrow> Inl (Thrown ''Error'')
                    | Some np \<Rightarrow>
                       (let d = set_password np
                                  (set_forgotPasswordToken None
                                     (set_forgotPasswordExpiry None (doc_of u)))
                        in Inr (s\<lparr>users := save L d (users s)\<rparr>,
                                \<lparr>status = 200, cookie = [],
                                 json = ApiResponse 200 []
                                          ''Password reset successfully''\<rparr>)))))"

text \<open>
  \<open>changeCurrentPassword\<close>. \<open>req.user?._id\<close> is \<open>undefined\<close> when there is no
  principal or it has no \<open>_id\<close>; the result of \<open>findById\<close> is used without a check, so
  a lookup that finds nobody ends in the \<open>TypeError\<close> of calling a method on
  \<open>null\<close>.
\<close>

fun principal_id :: "obj option \<Rightarrow> nat option" where
  "principal_id None = None"
| "principal_id (Some ob) = (case map_of ob ''_id'' of Some (Oid i) \<Rightarrow> Some i | _ \<Rightarrow> None)"

definition changeCurrentPassword ::
  "lib \<Rightarrow> sys \<Rightarrow> request \<Rightarrow> error + (sys \<times> response)" where
  "changeCurrentPassword L s req =
     (let oldPassword = map_of (body req) ''oldPassword'';
          newPassword = map_of (body req) ''newPassword'';
          found = (case principal_id (req_user req) of
                     None \<Rightarrow> None
                   | Some i \<Rightarrow> findById (users s) i)
      in case found of
           None \<Rightarrow> Inl (Thrown ''TypeError'')
         | Some u \<Rightarrow>
            (case isPasswordCorrect L u oldPassword of
               Inl e \<Rightarrow> Inl e
             | Inr isPasswordValid \<Rightarrow>
                 if \<not> isPasswordValid then Inl (ApiError 400 ''Invalid old Password'')
                 else case newPassword of
                   None \<Rightarrow> Inl (Thrown ''Error'')
                 | Some np \<Rightarrow>
                    (let d = set_password np (doc_of u)
                     in Inr (s\<lparr>users := save L d (users s)\<rparr>,
                             \<lparr>status = 200, cookie = [],
                              json = ApiResponse 200 [] ''Password changed successfully''\<rparr>))))"

section \<open>The async wrapper and the error boundary\<close>

text \<open>
  \<open>asyncHandler\<close>: the handler's promise is awaited and a rejection is passed to
  \<open>next\<close>. \<open>Completed r\<close> is a handler that finished with result \<open>r\<close>; \<open>Next e\<close>
  is the call \<open>next(e)\<close>.
\<close>

datatype 'a outcome = Completed 'a | Next error

definition asyncHandler :: "(request \<Rightarrow> error + 'a) \<Rightarrow> request \<Rightarrow> 'a outcome" where
  "asyncHandler requestHandler req =
     (case requestHandler req of Inl err \<Rightarrow> Next err | Inr r \<Rightarrow> Completed r)"

text \<open>
  Modelled from the spec: the boundary layer that turns an error passed to \<open>next\<close> into
  the status of the response is not among the sources (the application installs no error
  middleware of its own). It takes the status code the error carries and defaults to 500
  for an error that carries none.
\<close>

fun boundary_status :: "error \<Rightarrow> nat" where
  "boundary_status (ApiError c m) = c"
| "boundary_status (Thrown n) = 500"

section \<open>Middleware\<close>

text \<open>
  \<open>s.replace(pat, rep)\<close> with a string pattern replaces the first occurrence of
  \<open>pat\<close> in \<open>s\<close>, wherever it is.
\<close>

fun replace :: "string \<Rightarrow> string \<Rightarrow> string \<Rightarrow> string" where
  "replace pat rep [] = (if pat = [] then rep else [])"
| "replace pat rep (c # cs) =
     (if take (length pat) (c # cs) = pat then rep @ drop (length pat) (c # cs)
      else c # replace pat rep cs)"

text \<open>
  The credential \<open>verifyJWT\<close> reads:
  \<open>req.cookies?.accessToken || req.header("Authorization")?.replace("Bearer ", "")\<close>.
\<close>

definition bearer_token :: "request \<Rightarrow> string option" where
  "bearer_token req =
     js_or (map_of (cookies req) ''accessToken'')
           (map_option (replace ''Bearer '' []) (map_of (headers req) ''Authorization''))"

text \<open>
  \<open>verifyJWT\<close>: \<open>Inr\<close> is the request with the principal attached, handed to
  \<open>next()\<close>. Everything thrown inside the \<open>try\<close> block is replaced by the error of
  the \<open>catch\<close>.
\<close>

definition verifyJWT_try ::
  "lib \<Rightarrow> env \<Rightarrow> nat \<Rightarrow> user list \<Rightarrow> request \<Rightarrow> string \<Rightarrow> error + request" where
  "verifyJWT_try L E now us req token =
     (case jwt_verify L token (ACCESS_TOKEN_SECRET E) now of
        None \<Rightarrow> Inl (Thrown ''JsonWebTokenError'')
      | Some decodedToken \<Rightarrow>
         (case findById us (sub decodedToken) of
            None \<Rightarrow> Inl (ApiError 401 ''Invalid access token'')
          | Some u \<Rightarrow> Inr (req\<lparr>req_user := Some (sanitized u)\<rparr>)))"

definition verifyJWT :: "lib \<Rightarrow> env \<Rightarrow> nat \<Rightarrow> user list \<Rightarrow> request \<Rightarrow> error + request" where
  "verifyJWT L E now us req =
     (case bearer_token req of
        None \<Rightarrow> Inl (ApiError 401 ''Unauthorized request'')
      | Some token \<Rightarrow>
          if token = [] then Inl (ApiError 401 ''Unauthorized request'')
          else case verifyJWT_try L E now us req token of
            Inl e \<Rightarrow> Inl (ApiError 401 ''Invalid access token'')
          | Inr r \<Rightarrow> Inr r)"

text \<open>
  \<open>models/projectmember.models.js\<close> and \<open>validateProjectPermission(roles)\<close>. An
  invalid \<open>projectId\<close> makes the \<open>ObjectId\<close> constructor throw; a principal without
  an \<open>_id\<close> gives a new \<open>ObjectId\<close>, which no membership refers to.
\<close>

record projectMember =
  member_user :: nat
  member_project :: nat
  role :: string

definition validateProjectPermission ::
  "lib \<Rightarrow> string list \<Rightarrow> projectMember list \<Rightarrow> request \<Rightarrow> error + request" where
  "validateProjectPermission L roles members req =
     (case map_of (params req) ''projectId'' of
        None \<Rightarrow> Inl (ApiError 400 ''project id is missing'')
      | Some projectId \<Rightarrow>
          if projectId = [] then Inl (ApiError 400 ''project id is missing'')
          else case objectId L projectId of
            None \<Rightarrow> Inl (Thrown ''BSONError'')
          | Some p \<Rightarrow>
             (case req_user req of
                None \<Rightarrow> Inl (Thrown ''TypeError'')
              | Some principal' \<Rightarrow>
                 (case (case principal_id (Some principal') of
                          None \<Rightarrow> None
                        | Some i \<Rightarrow>
                            find (\<lambda>m. member_project m = p \<and> member_user m = i) members) of
                    None \<Rightarrow> Inl (ApiError 400 ''project not found'')
                  | Some project \<Rightarrow>
                     (let givenRole = role project;
                          req' = req\<lparr>req_user :=
                                   Some (AList.update ''role'' (Str givenRole) principal')\<rparr>
                      in if givenRole \<notin> set roles
                         then Inl (ApiError 403
                                ''You do not have permission to perform this action'')
                         else Inr req'))))"

section \<open>A concrete instance of the library interface\<close>

text \<open>
  The theorems below hold for every implementation of the library interface. To run
  the model on examples, this instance stands in for the packages: the digest of
  \<open>s\<close> is \<open>s\<close> behind a mark, a password hash is the password behind the
  \<open>bcrypt\<close> prefix, and a signed token spells out its secret, its subject and its
  issue time (in seconds) in unary, with a lifetime of 100 seconds.
\<close>

definition demo_sign :: "claims \<Rightarrow> string \<Rightarrow> string \<Rightarrow> nat \<Rightarrow> string" where
  "demo_sign c secret expiresIn now =
     secret @ ''.'' @ replicate (sub c) (CHR ''u'') @ ''.'' @ replicate (now div 1000) (CHR ''t'')"

definition demo_decode :: "string \<Rightarrow> string \<Rightarrow> (claims \<times> nat) option" where
  "demo_decode token secret =
     (if take (length secret + 1) token = secret @ ''.''
      then (let rest = drop (length secret + 1) token;
                u = length (takeWhile (\<lambda>c. c = CHR ''u'') rest);
                t = length (takeWhile (\<lambda>c. c = CHR ''t'') (drop (u + 1) rest))
            in Some (\<lparr>sub = u, claim_email = None, claim_username = None\<rparr>, t + 100))
      else None)"

definition demo_lib :: lib where
  "demo_lib =
     \<lparr>sha256 = (\<lambda>s. ''#'' @ s),
      bcrypt_hash = (\<lambda>p. ''$2b$10$'' @ p),
      bcrypt_compare = (\<lambda>p h. h = ''$2b$10$'' @ p),
      jwt_sign = demo_sign,
      jwt_decode = demo_decode,
      objectId = (\<lambda>s. if s = ''p7'' then Some 7 else None)\<rparr>"

definition demo_env :: env where
  "demo_env =
     \<lparr>ACCESS_TOKEN_SECRET = ''as'', ACCESS_TOKEN_EXPIRY = ''15m'',
      REFRESH_TOKEN_SECRET = ''rs'', REFRESH_TOKEN_EXPIRY = ''10d'',
      FORGOT_PASSWORD_REDIRECT_URL = ''http://front/reset''\<rparr>"

definition demo_request :: request where
  "demo_request =
     \<lparr>body = [], params = [], cookies = [], headers = [],
      protocol = ''http'', host = ''localhost'', req_user = None\<rparr>"

definition alice :: user where
  "alice =
     \<lparr>uid = 1, username = ''alice'', email = ''a@x.com'', password = ''$2b$10$pw123'',
      isEmailVerified = False, refreshToken = None, forgotPasswordToken = None,
      forgotPasswordExpiry = None, emailVerificationToken = None,
      emailVerificationExpiry = None\<rparr>"

section \<open>Facts about the collection\<close>

lemma uid_copy_path: "uid (copy_path src p dst) = uid dst"
  by (cases p) simp_all

lemma uid_fold_copy_path: "uid (fold (copy_path src) ps dst) = uid dst"
  by (induction ps arbitrary: dst) (simp_all add: uid_copy_path)

lemma findById_Nil: "findById [] i = None"
  by (simp add: findById_def findOne_def)

lemma findById_Cons:
  "findById (u # us) i = (if uid u = i then Some u else findById us i)"
  by (simp add: findById_def findOne_def)

lemma findById_updateOne:
  assumes "\<And>u. uid (f u) = uid u"
  shows "findById (updateOne i f us) j =
           (if j = i then map_option f (findById us j) else findById us j)"
  using assms by (induction us) (auto simp: findById_Cons findById_Nil)

lemma findById_uid: "findById us i = Some u \<Longrightarrow> uid u = i"
  by (induction us) (auto simp: findById_Cons findById_Nil split: if_splits)

lemma findById_mem: "findById us i = Some u \<Longrightarrow> u \<in> set us"
  by (induction us) (auto simp: findById_Cons findById_Nil split: if_splits)

lemma modifiedPaths_pre_save: "modifiedPaths (pre_save L d) = modifiedPaths d"
  by (simp add: pre_save_def)

lemma uid_pre_save: "uid (doc_fields (pre_save L d)) = uid (doc_fields d)"
  by (simp add: pre_save_def)

lemma findById_save:
  "findById (save L d us) j =
     (if j = uid (doc_fields d)
      then map_option (fold (copy_path (doc_fields (pre_save L d))) (modifiedPaths d))
             (findById us j)
      else findById us j)"
  by (simp add: save_def Let_def findById_updateOne uid_fold_copy_path
        modifiedPaths_pre_save uid_pre_save)

lemma password_copy_path:
  "password (copy_path src p dst) = (if p = Password then password src else password dst)"
  by (cases p) simp_all

lemma password_fold_copy_path:
  "password (fold (copy_path src) ps dst) =
     (if Password \<in> set ps then password src else password dst)"
  by (induction ps arbitrary: dst) (auto simp: password_copy_path)

lemma refreshToken_copy_path:
  "refreshToken (copy_path src p dst) =
     (if p = RefreshToken then refreshToken src else refreshToken dst)"
  by (cases p) simp_all

lemma refreshToken_fold_copy_path:
  "refreshToken (fold (copy_path src) ps dst) =
     (if RefreshToken \<in> set ps then refreshToken src else refreshToken dst)"
  by (induction ps arbitrary: dst) (auto simp: refreshToken_copy_path)

lemma jwt_verify_same_payload:
  "jwt_verify L t k now = Some c \<Longrightarrow> jwt_verify L t k now2 = Some c2 \<Longrightarrow> c2 = c"
  by (auto simp: jwt_verify_def split: option.splits prod.splits if_splits)

lemma findById_save_set_refreshToken:
  assumes "findById us (uid u) = Some w"
  shows "\<exists>w'. findById (save L (set_refreshToken v (doc_of u)) us) (uid u) = Some w'
              \<and> (refreshToken u \<noteq> v \<or> refreshToken w = v \<longrightarrow> refreshToken w' = v)"
  using assms
  by (simp add: findById_save set_refreshToken_def markModified_def doc_of_def
        pre_save_def isModified_def refreshToken_fold_copy_path)

lemma generateAccessAndRefreshTokens_stores:
  assumes "generateAccessAndRefreshTokens L E now us i = Inr (us1, a, rt)"
  shows "\<exists>w. findById us1 i = Some w \<and> refreshToken w = Some rt"
proof (cases "findById us i")
  case None
  with assms show ?thesis by (simp add: generateAccessAndRefreshTokens_def)
next
  case (Some u)
  have i: "uid u = i" using Some by (rule findById_uid)
  from assms Some
  have us1: "save L (set_refreshToken (Some rt) (doc_of u)) us = us1"
    by (auto simp: generateAccessAndRefreshTokens_def Let_def)
  from findById_save_set_refreshToken[of us u u L "Some rt"] Some i
  show ?thesis unfolding us1 by auto
qed

section \<open>C1: what registration stores as the verification token\<close>

lemma generateTemporaryToken_keys:
  "map_of (generateTemporaryToken L rnd now) ''hashedToken'' = None"
  "map_of (generateTemporaryToken L rnd now) ''HashedToken'' = Some (Str (sha256 L rnd))"
  by (simp_all add: generateTemporaryToken_def Let_def)

lemma register_example:
  "registerUser demo_lib 1000 ''ab12'' \<lparr>users = [], sent = []\<rparr>
     (demo_request\<lparr>body := [(''email'', ''a@x.com''), (''username'', ''alice''),
                              (''password'', ''pw123'')]\<rparr>)
   = Inr (\<lparr>users = [alice\<lparr>emailVerificationToken := None,
                              emailVerificationExpiry := Some 1201000\<rparr>],
           sent = [\<lparr>mail_to = ''a@x.com'', subject = ''Please verify your email'',
                    link = ''http://localhost/api/v1/users/verify-email/ab12''\<rparr>]\<rparr>,
          \<lparr>status = 201, cookie = [],
           json = ApiResponse 200
                    [(''user'', Obj [(''_id'', Oid 1), (''username'', Str ''alice''),
                                     (''email'', Str ''a@x.com''),
                                     (''isEmailVerified'', Bool False)])]
                    ''User registered successfully and verification email has been sent on your email''\<rparr>)"
  by (simp add: registerUser_def Let_def findOne_def create_def fresh_id_def
        generateTemporaryToken_def set_emailVerificationExpiry_def
        set_emailVerificationToken_def doc_of_def markModified_def save_def pre_save_def
        isModified_def sendEmail_def findById_def sanitized_def select_minus_def
        toObject_def ApiResponse_def demo_lib_def demo_request_def alice_def)

text \<open>
  C1. The claim says that a successful registration stores, in
  \<open>emailVerificationToken\<close>, the SHA-256 digest of the plain token of the emailed URL,
  and in \<open>emailVerificationExpiry\<close> the generation time plus 20 minutes. The code
  does the second and not the first: \<open>generateTemporaryToken\<close> returns the digest
  under the key \<open>HashedToken\<close>, \<open>registerUser\<close> reads the key \<open>hashedToken\<close>, so
  the assigned value is \<open>undefined\<close> and the field stays unset. Here a registration at
  time 1000 with the random token \<open>ab12\<close>: the mail carries \<open>ab12\<close>, the expiry is
  1000 + 1200000, and the stored token is \<open>None\<close>, not the digest of \<open>ab12\<close>.
\<close>

theorem registerUser_stores_no_token_hash:
  "registerUser demo_lib 1000 ''ab12'' \<lparr>users = [], sent = []\<rparr>
     (demo_request\<lparr>body := [(''email'', ''a@x.com''), (''username'', ''alice''),
                              (''password'', ''pw123'')]\<rparr>)
   = Inr (\<lparr>users = [alice\<lparr>emailVerificationToken := None,
                              emailVerificationExpiry := Some 1201000\<rparr>],
           sent = [\<lparr>mail_to = ''a@x.com'', subject = ''Please verify your email'',
                    link = ''http://localhost/api/v1/users/verify-email/ab12''\<rparr>]\<rparr>,
          \<lparr>status = 201, cookie = [],
           json = ApiResponse 200
                    [(''user'', Obj [(''_id'', Oid 1), (''username'', Str ''alice''),
                                     (''email'', Str ''a@x.com''),
                                     (''isEmailVerified'', Bool False)])]
                    ''User registered successfully and verification email has been sent on your email''\<rparr>)
   \<and> sha256 demo_lib ''ab12'' = ''#ab12''"
  using register_example by (simp add: demo_lib_def)

section \<open>C2: the user object returned by register and login\<close>

lemma map_of_select_minus:
  "map_of (select_minus names ob) k = (if k \<in> set names then None else map_of ob k)"
  unfolding select_minus_def by (induction ob) auto

lemma map_of_entry: "map_of (entry k v) k' = (if k' = k then v else None)"
  by (cases v) simp_all

lemma sanitized_hides:
  "map_of (sanitized u) ''password'' = None"
  "map_of (sanitized u) ''refreshToken'' = None"
  "map_of (sanitized u) ''emailVerificationToken'' = None"
  "map_of (sanitized u) ''emailVerificationExpiry'' = None"
  by (simp_all add: sanitized_def map_of_select_minus)

lemma sanitized_keeps_forgot:
  "map_of (sanitized u) ''forgotPasswordToken'' = map_option Str (forgotPasswordToken u)"
  "map_of (sanitized u) ''forgotPasswordExpiry'' = map_option Date (forgotPasswordExpiry u)"
  by (simp_all add: sanitized_def map_of_select_minus toObject_def map_of_entry
        map_add_def split: option.splits)

lemma registerUser_returns:
  assumes "registerUser L now rnd s req = Inr (s', r)"
  shows "\<exists>u\<in>set (users s'). map_of (data (json r)) ''user'' = Some (Obj (sanitized u))"
proof -
  from assms have "\<exists>p. create L (users s) (map_of (body req) ''email'')
          (map_of (body req) ''password'') (map_of (body req) ''username'') = Inr p"
    by (simp add: registerUser_def Let_def split: option.splits sum.splits)
  then obtain us1 u where
    c: "create L (users s) (map_of (body req) ''email'') (map_of (body req) ''password'')
          (map_of (body req) ''username'') = Inr (us1, u)"
    by (metis surj_pair)
  let ?tok = "generateTemporaryToken L rnd now"
  let ?us2 = "save L (set_emailVerificationExpiry (cast_Date (map_of ?tok ''tokenExpiry''))
                 (set_emailVerificationToken (cast_String (map_of ?tok ''hashedToken''))
                    (doc_of u))) us1"
  from assms c obtain cu where cu: "findById ?us2 (uid u) = Some cu"
    and s': "users s' = ?us2"
    and r: "data (json r) = [(''user'', Obj (sanitized cu))]"
    by (auto simp: registerUser_def Let_def ApiResponse_def split: option.splits)
  from cu have "cu \<in> set ?us2" by (rule findById_mem)
  with s' r show ?thesis by auto
qed

lemma login_returns:
  assumes "login L E now s req = Inr (s', r)"
  shows "\<exists>u\<in>set (users s'). map_of (data (json r)) ''user'' = Some (Obj (sanitized u))"
proof -
  from assms obtain u where
    u: "findOne (\<lambda>u. Some (email u) = map_of (body req) ''email'') (users s) = Some u"
    by (cases "findOne (\<lambda>u. Some (email u) = map_of (body req) ''email'') (users s)")
       (simp_all add: login_def Let_def split: if_splits)
  from assms u have ok: "isPasswordCorrect L u (map_of (body req) ''password'') = Inr True"
    by (cases "isPasswordCorrect L u (map_of (body req) ''password'')")
       (simp_all add: login_def Let_def split: if_splits)
  from assms u ok obtain p where
    "generateAccessAndRefreshTokens L E now (users s) (uid u) = Inr p"
    by (cases "generateAccessAndRefreshTokens L E now (users s) (uid u)")
       (simp_all add: login_def Let_def split: if_splits)
  then obtain us1 a rt where
    gen: "generateAccessAndRefreshTokens L E now (users s) (uid u) = Inr (us1, a, rt)"
    by (metis surj_pair)
  from generateAccessAndRefreshTokens_stores[OF gen]
  obtain w where w: "findById us1 (uid u) = Some w" by blast
  from assms u ok gen w have "users s' = us1"
    and "map_of (data (json r)) ''user'' = Some (Obj (sanitized w))"
    by (auto simp: login_def Let_def ApiResponse_def split: if_splits)
  moreover from w have "w \<in> set us1" by (rule findById_mem)
  ultimately show ?thesis by blast
qed

text \<open>
  C2, as stated, fails: the projection drops \<open>password\<close>, \<open>refreshToken\<close>,
  \<open>emailVerificationToken\<close> and \<open>emailVerificationExpiry\<close> and nothing else, so a
  user who has a pending password reset gets \<open>forgotPasswordToken\<close> and
  \<open>forgotPasswordExpiry\<close> back from \<open>login\<close>.
\<close>

theorem login_returns_forgot_password_fields:
  "login demo_lib demo_env 5000
     \<lparr>users = [alice\<lparr>forgotPasswordToken := Some ''#r1'',
                        forgotPasswordExpiry := Some 9000\<rparr>], sent = []\<rparr>
     (demo_request\<lparr>body := [(''email'', ''a@x.com''), (''password'', ''pw123'')]\<rparr>)
   = Inr (\<lparr>users = [alice\<lparr>refreshToken := Some ''rs.u.ttttt'',
                              forgotPasswordToken := Some ''#r1'',
                              forgotPasswordExpiry := Some 9000\<rparr>], sent = []\<rparr>,
          \<lparr>status = 200,
           cookie = [(''accessToken'', ''as.u.ttttt''), (''refreshToken'', ''rs.u.ttttt'')],
           json = ApiResponse 200
                    [(''user'', Obj [(''_id'', Oid 1), (''username'', Str ''alice''),
                                     (''email'', Str ''a@x.com''),
                                     (''isEmailVerified'', Bool False),
                                     (''forgotPasswordToken'', Str ''#r1''),
                                     (''forgotPasswordExpiry'', Date 9000)]),
                     (''accessToken'', Str ''as.u.ttttt''),
                     (''refreshToken'', Str ''rs.u.ttttt'')]
                    ''User logged in successfully''\<rparr>)"
  by code_simp

text \<open>
  C2, amended. The user object returned by a successful \<open>registerUser\<close> or \<open>login\<close>
  is the projection of a stored user and has no \<open>password\<close>, \<open>refreshToken\<close>,
  \<open>emailVerificationToken\<close> or \<open>emailVerificationExpiry\<close> field; the
  forgot-password pair is not removed: \<open>forgotPasswordToken\<close> and
  \<open>forgotPasswordExpiry\<close> are returned as they are stored.
\<close>

theorem returned_user_hides_listed_secrets:
  assumes "registerUser L now rnd s req = Inr (s', r) \<or> login L E now s req = Inr (s', r)"
  shows "\<exists>u\<in>set (users s').
           map_of (data (json r)) ''user'' = Some (Obj (sanitized u))
         \<and> map_of (sanitized u) ''password'' = None
         \<and> map_of (sanitized u) ''refreshToken'' = None
         \<and> map_of (sanitized u) ''emailVerificationToken'' = None
         \<and> map_of (sanitized u) ''emailVerificationExpiry'' = None
         \<and> map_of (sanitized u) ''forgotPasswordToken'' = map_option Str (forgotPasswordToken u)
         \<and> map_of (sanitized u) ''forgotPasswordExpiry'' = map_option Date (forgotPasswordExpiry u)"
proof -
  from assms registerUser_returns login_returns
  obtain u where "u \<in> set (users s')"
    "map_of (data (json r)) ''user'' = Some (Obj (sanitized u))"
    by blast
  then show ?thesis
    using sanitized_hides[of u] sanitized_keeps_forgot[of u] by blast
qed

theorem returned_user_hides_listed_secrets_witness:
  "\<exists>u\<in>set [alice\<lparr>emailVerificationToken := None,
                       emailVerificationExpiry := Some 1201000\<rparr>].
      Some (Obj [(''_id'', Oid 1), (''username'', Str ''alice''), (''email'', Str ''a@x.com''),
                 (''isEmailVerified'', Bool False)]) = Some (Obj (sanitized u))
    \<and> map_of (sanitized u) ''password'' = None
    \<and> map_of (sanitized u) ''refreshToken'' = None
    \<and> map_of (sanitized u) ''emailVerificationToken'' = None
    \<and> map_of (sanitized u) ''emailVerificationExpiry'' = None
    \<and> map_of (sanitized u) ''forgotPasswordToken'' = map_option Str (forgotPasswordToken u)
    \<and> map_of (sanitized u) ''forgotPasswordExpiry'' = map_option Date (forgotPasswordExpiry u)"
  using returned_user_hides_listed_secrets[OF disjI1, OF register_example]
  by (simp add: ApiResponse_def)

section \<open>C3: the old refresh token after a rotation\<close>

text \<open>
  C3, as stated, fails: the token a refresh issues need not be new. \<open>jwt.sign\<close>
  stamps the issue time in whole seconds, and the payload of a refresh token is the
  user's \<open>_id\<close> alone, so a refresh within the second in which \<open>T\<close> was issued
  signs \<open>T\<close> again. Here \<open>T\<close> was issued at time 1000; the refresh at time 1999
  succeeds, issues and stores \<open>T\<close> itself, and a later call with \<open>T\<close> at time 6000
  succeeds as well.
\<close>

theorem refresh_within_issuing_second_keeps_old_token:
  "refreshAccessToken demo_lib demo_env 1999
       \<lparr>users = [alice\<lparr>refreshToken := Some ''rs.u.t''\<rparr>], sent = []\<rparr>
       (demo_request\<lparr>cookies := [(''refreshToken'', ''rs.u.t'')]\<rparr>)
     = Inr (\<lparr>users = [alice\<lparr>refreshToken := Some ''rs.u.t''\<rparr>], sent = []\<rparr>,
            \<lparr>status = 200,
             cookie = [(''accessToken'', ''as.u.t''), (''refreshToken'', ''rs.u.t'')],
             json = ApiResponse 200
                      [(''accessToken'', Str ''as.u.t''), (''refreshToken'', Str ''rs.u.t'')]
                      ''Access token refreshed''\<rparr>)
   \<and> refreshAccessToken demo_lib demo_env 6000
       \<lparr>users = [alice\<lparr>refreshToken := Some ''rs.u.t''\<rparr>], sent = []\<rparr>
       (demo_request\<lparr>cookies := [(''refreshToken'', ''rs.u.t'')]\<rparr>)
     = Inr (\<lparr>users = [alice\<lparr>refreshToken := Some ''rs.u.tttttt''\<rparr>], sent = []\<rparr>,
            \<lparr>status = 200,
             cookie = [(''accessToken'', ''as.u.tttttt''), (''refreshToken'', ''rs.u.tttttt'')],
             json = ApiResponse 200
                      [(''accessToken'', Str ''as.u.tttttt''),
                       (''refreshToken'', Str ''rs.u.tttttt'')]
                      ''Access token refreshed''\<rparr>)
   \<and> generateRefreshToken demo_lib demo_env 1000 alice = ''rs.u.t''"
  by code_simp

text \<open>
  C3, amended. After \<open>refreshAccessToken\<close> has succeeded with the refresh token
  \<open>T\<close> and has issued and stored a refresh token \<open>T'\<close> that differs from \<open>T\<close>,
  a later call that presents the old token \<open>T\<close>, at any time \<open>now2\<close> and so also
  while \<open>T\<close> still verifies, fails with \<open>ApiError 401\<close>. \<open>T'\<close> is the token the
  first call sets in the \<open>refreshToken\<close> cookie.
\<close>

theorem refresh_rotation_rejects_old_token:
  assumes first: "refreshAccessToken L E now s req = Inr (s', r)"
    and old: "js_or (map_of (cookies req) ''refreshToken'')
                    (map_of (body req) ''refreshToken'') = Some T"
    and new: "map_of (cookie r) ''refreshToken'' = Some T'"
    and differ: "T' \<noteq> T"
    and again: "js_or (map_of (cookies req2) ''refreshToken'')
                      (map_of (body req2) ''refreshToken'') = Some T"
  shows "refreshAccessToken L E now2 s' req2 = Inl (ApiError 401 ''Invalid refresh token'')"
proof -
  from first old have T: "T \<noteq> []"
    and body: "refreshAccessToken_try L E now s T = Inr (s', r)"
    by (auto simp: refreshAccessToken_def Let_def split: if_splits sum.splits)
  from body obtain c u us1 a nrt where
    c: "jwt_verify L T (REFRESH_TOKEN_SECRET E) now = Some c"
    and u: "findById (users s) (sub c) = Some u"
    and gen: "generateAccessAndRefreshTokens L E now (users s) (uid u) = Inr (us1, a, nrt)"
    and s': "s' = s\<lparr>users := save L (set_refreshToken (Some nrt) (doc_of u)) us1\<rparr>"
    and r: "cookie r = [(''accessToken'', a), (''refreshToken'', nrt)]"
    and stored: "refreshToken u = Some T"
    by (auto simp: refreshAccessToken_try_def Let_def
             split: option.splits if_splits sum.splits prod.splits)
  from new r have nrt: "nrt = T'" by simp
  from generateAccessAndRefreshTokens_stores[OF gen]
  obtain w where w: "findById us1 (uid u) = Some w" by blast
  from findById_save_set_refreshToken[OF w, of L "Some nrt"] stored differ nrt
  obtain w' where w': "findById (users s') (uid u) = Some w'" "refreshToken w' = Some T'"
    by (auto simp: s')
  have idu: "uid u = sub c" using u by (rule findById_uid)
  have "\<exists>e. refreshAccessToken_try L E now2 s' T = Inl e"
  proof (cases "jwt_verify L T (REFRESH_TOKEN_SECRET E) now2")
    case None
    then show ?thesis by (simp add: refreshAccessToken_try_def)
  next
    case (Some c2)
    have "c2 = c" using jwt_verify_same_payload[OF c Some] .
    with Some w' idu differ show ?thesis
      by (simp add: refreshAccessToken_try_def)
  qed
  with again T show ?thesis
    by (auto simp: refreshAccessToken_def Let_def)
qed

theorem refresh_rotation_rejects_old_token_witness:
  "refreshAccessToken demo_lib demo_env 5000
       \<lparr>users = [alice\<lparr>refreshToken := Some ''rs.u.t''\<rparr>], sent = []\<rparr>
       (demo_request\<lparr>cookies := [(''refreshToken'', ''rs.u.t'')]\<rparr>)
     = Inr (\<lparr>users = [alice\<lparr>refreshToken := Some ''rs.u.ttttt''\<rparr>], sent = []\<rparr>,
            \<lparr>status = 200,
             cookie = [(''accessToken'', ''as.u.ttttt''), (''refreshToken'', ''rs.u.ttttt'')],
             json = ApiResponse 200
                      [(''accessToken'', Str ''as.u.ttttt''),
                       (''refreshToken'', Str ''rs.u.ttttt'')]
                      ''Access token refreshed''\<rparr>)
   \<and> jwt_verify demo_lib ''rs.u.t'' (REFRESH_TOKEN_SECRET demo_env) 6000
        = Some \<lparr>sub = 1, claim_email = None, claim_username = None\<rparr>
   \<and> refreshAccessToken demo_lib demo_env 6000
       \<lparr>users = [alice\<lparr>refreshToken := Some ''rs.u.ttttt''\<rparr>], sent = []\<rparr>
       (demo_request\<lparr>cookies := [(''refreshToken'', ''rs.u.t'')]\<rparr>)
     = Inl (ApiError 401 ''Invalid refresh token'')"
proof -
  let ?req = "demo_request\<lparr>cookies := [(''refreshToken'', ''rs.u.t'')]\<rparr>"
  have first: "refreshAccessToken demo_lib demo_env 5000
       \<lparr>users = [alice\<lparr>refreshToken := Some ''rs.u.t''\<rparr>], sent = []\<rparr> ?req
     = Inr (\<lparr>users = [alice\<lparr>refreshToken := Some ''rs.u.ttttt''\<rparr>], sent = []\<rparr>,
            \<lparr>status = 200,
             cookie = [(''accessToken'', ''as.u.ttttt''), (''refreshToken'', ''rs.u.ttttt'')],
             json = ApiResponse 200
                      [(''accessToken'', Str ''as.u.ttttt''),
                       (''refreshToken'', Str ''rs.u.ttttt'')]
                      ''Access token refreshed''\<rparr>)"
    by code_simp
  have valid: "jwt_verify demo_lib ''rs.u.t'' (REFRESH_TOKEN_SECRET demo_env) 6000
        = Some \<lparr>sub = 1, claim_email = None, claim_username = None\<rparr>"
    by code_simp
  have old: "js_or (map_of (cookies ?req) ''refreshToken'')
                   (map_of (body ?req) ''refreshToken'') = Some ''rs.u.t''"
    by (simp add: js_or_def demo_request_def)
  from refresh_rotation_rejects_old_token
         [OF first old _ _ old, of "''rs.u.ttttt''" 6000] first valid
  show ?thesis by simp
qed

section \<open>C4: the status of a reset with an invalid or expired token\<close>

text \<open>
  C4. The claim says that a reset whose token matches no user with an unexpired expiry
  fails with status 400 and changes nothing. Nothing is changed, but the status the code
  gives is 489, where \<open>verifyEmail\<close> gives 400 for the same condition and message.
\<close>

theorem resetForgotPassword_invalid_token_status:
  "resetForgotPassword demo_lib 1000 \<lparr>users = [alice], sent = []\<rparr>
     (demo_request\<lparr>params := [(''resetToken'', ''deadbeef'')],
                    body := [(''newPassword'', ''pw456'')]\<rparr>)
   = Inl (ApiError 489 ''Token is invalid or expired'')
   \<and> boundary_status (ApiError 489 ''Token is invalid or expired'') = 489
   \<and> verifyEmail demo_lib 1000 \<lparr>users = [alice], sent = []\<rparr>
         (demo_request\<lparr>params := [(''verificationToken'', ''deadbeef'')]\<rparr>)
       = Inl (ApiError 400 ''Token is invalid or expired'')"
  by (simp add: resetForgotPassword_def verifyEmail_def Let_def findOne_def
        token_matches_def demo_lib_def demo_request_def alice_def)

section \<open>C5: a verification token is consumed once\<close>

lemma find_unique:
  "u \<in> set us \<Longrightarrow> P u \<Longrightarrow> \<forall>v\<in>set us. P v \<longrightarrow> v = u \<Longrightarrow> find P us = Some u"
proof (induction us)
  case Nil
  then show ?case by simp
next
  case (Cons a us)
  show ?case
  proof (cases "P a")
    case True
    with Cons.prems(3) have "a = u" by simp
    with True show ?thesis by simp
  next
    case False
    with Cons.prems(2) have "a \<noteq> u" by blast
    with Cons.prems(1) have "u \<in> set us" by simp
    moreover from Cons.prems(3) have "\<forall>v\<in>set us. P v \<longrightarrow> v = u" by simp
    ultimately have "find P us = Some u" using Cons.IH Cons.prems(2) by blast
    with False show ?thesis by simp
  qed
qed

lemma updateOne_distinct:
  "distinct (map uid us) \<Longrightarrow> u \<in> set us \<Longrightarrow>
     updateOne (uid u) f us = map (\<lambda>v. if v = u then f v else v) us"
proof (induction us)
  case Nil
  then show ?case by simp
next
  case (Cons a us)
  show ?case
  proof (cases "a = u")
    case True
    with Cons.prems have "\<forall>v\<in>set us. v \<noteq> u" by auto
    then have "map (\<lambda>v. if v = u then f v else v) us = us"
      by (induction us) auto
    with True show ?thesis by simp
  next
    case False
    with Cons.prems have "u \<in> set us" "uid a \<noteq> uid u" by auto
    with Cons False show ?thesis by simp
  qed
qed

lemma verified_doc_written:
  assumes "emailVerificationToken u = Some h" "emailVerificationExpiry u = Some e"
  defines "d \<equiv> set_isEmailVerified True
                 (set_emailVerificationExpiry None
                    (set_emailVerificationToken None (doc_of u)))"
  shows "uid (doc_fields (pre_save L d)) = uid u"
    and "fold (copy_path (doc_fields (pre_save L d))) (modifiedPaths (pre_save L d)) u =
           u\<lparr>isEmailVerified := True, emailVerificationToken := None,
             emailVerificationExpiry := None\<rparr>"
  using assms(1,2) unfolding d_def
  by (simp_all add: set_isEmailVerified_def set_emailVerificationExpiry_def
        set_emailVerificationToken_def doc_of_def markModified_def pre_save_def
        isModified_def)

text \<open>
  C5. For a user \<open>u\<close> who holds the digest of the plain token \<open>vt\<close> with an expiry
  in the future, \<open>verifyEmail\<close> with \<open>vt\<close> succeeds with status 200, sets
  \<open>isEmailVerified\<close> of \<open>u\<close> and clears both verification fields, leaving every
  other user as it was; and a second \<open>verifyEmail\<close> with the same \<open>vt\<close>, at any
  time, fails with \<open>ApiError 400\<close>. The collection has unique \<open>_id\<close>s, and no other
  user holds the same digest.
\<close>

theorem verifyEmail_consumes_token_once:
  assumes ids: "distinct (map uid (users s))"
    and u: "u \<in> set (users s)"
    and tok: "emailVerificationToken u = Some (sha256 L vt)"
    and exp: "emailVerificationExpiry u = Some e" "now < e"
    and only: "\<forall>v\<in>set (users s). emailVerificationToken v = Some (sha256 L vt) \<longrightarrow> v = u"
    and req: "map_of (params req) ''verificationToken'' = Some vt" "vt \<noteq> []"
  shows "\<exists>s' r. verifyEmail L now s req = Inr (s', r) \<and> status r = 200
           \<and> users s' =
               map (\<lambda>v. if v = u
                         then u\<lparr>isEmailVerified := True, emailVerificationToken := None,
                                emailVerificationExpiry := None\<rparr>
                         else v) (users s)
           \<and> (\<forall>now2. verifyEmail L now2 s' req =
                        Inl (ApiError 400 ''Token is invalid or expired''))"
proof -
  let ?P = "\<lambda>n v. token_matches (sha256 L vt) n
                     (emailVerificationToken v) (emailVerificationExpiry v)"
  let ?u' = "u\<lparr>isEmailVerified := True, emailVerificationToken := None,
               emailVerificationExpiry := None\<rparr>"
  let ?us' = "map (\<lambda>v. if v = u then ?u' else v) (users s)"
  let ?d = "set_isEmailVerified True
              (set_emailVerificationExpiry None
                 (set_emailVerificationToken None (doc_of u)))"
  have Pu: "?P now u"
    using tok exp by (simp add: token_matches_def)
  have uniq: "\<forall>v\<in>set (users s). ?P now v \<longrightarrow> v = u"
    using only by (simp add: token_matches_def)
  have found: "findOne (?P now) (users s) = Some u"
    unfolding findOne_def using u Pu uniq by (rule find_unique)
  have "save L ?d (users s) =
          map (\<lambda>v. if v = u
                    then fold (copy_path (doc_fields (pre_save L ?d)))
                           (modifiedPaths (pre_save L ?d)) v
                    else v) (users s)"
    unfolding save_def Let_def verified_doc_written(1)[OF tok exp(1)]
    by (rule updateOne_distinct[OF ids u])
  also have "\<dots> = ?us'"
    by (rule map_cong) (simp_all add: verified_doc_written(2)[OF tok exp(1)])
  finally have saved: "save L ?d (users s) = ?us'" .
  have run: "verifyEmail L now s req =
      Inr (s\<lparr>users := ?us'\<rparr>,
           \<lparr>status = 200, cookie = [],
            json = ApiResponse 200 [(''isEmailVerified'', Bool True)] ''Email is verified''\<rparr>)"
    unfolding verifyEmail_def Let_def using req found saved by simp
  have none: "findOne (?P now2) ?us' = None" for now2
  proof -
    have "\<not> ?P now2 w" if "w \<in> set ?us'" for w
    proof (cases "w = ?u'")
      case True
      then show ?thesis by (simp add: token_matches_def)
    next
      case False
      with that have "w \<in> set (users s)" "w \<noteq> u" by auto
      with only have "emailVerificationToken w \<noteq> Some (sha256 L vt)" by blast
      then show ?thesis by (simp add: token_matches_def)
    qed
    then show ?thesis unfolding findOne_def find_None_iff by blast
  qed
  have again: "verifyEmail L now2 (s\<lparr>users := ?us'\<rparr>) req =
                 Inl (ApiError 400 ''Token is invalid or expired'')" for now2
    unfolding verifyEmail_def Let_def using req none[of now2] by simp
  from run again show ?thesis by simp
qed

theorem verifyEmail_consumes_token_once_witness:
  "distinct (map uid [alice\<lparr>emailVerificationToken := Some ''#c0ffee'',
                           emailVerificationExpiry := Some 2000\<rparr>])
   \<and> (1000::nat) < 2000
   \<and> (\<exists>s' r. verifyEmail demo_lib 1000
                 \<lparr>users = [alice\<lparr>emailVerificationToken := Some ''#c0ffee'',
                                  emailVerificationExpiry := Some 2000\<rparr>], sent = []\<rparr>
                 (demo_request\<lparr>params := [(''verificationToken'', ''c0ffee'')]\<rparr>) = Inr (s', r)
          \<and> status r = 200
          \<and> users s' = [alice\<lparr>isEmailVerified := True\<rparr>]
          \<and> (\<forall>now2. verifyEmail demo_lib now2 s'
                        (demo_request\<lparr>params := [(''verificationToken'', ''c0ffee'')]\<rparr>) =
                      Inl (ApiError 400 ''Token is invalid or expired'')))"
proof -
  let ?u = "alice\<lparr>emailVerificationToken := Some ''#c0ffee'',
                  emailVerificationExpiry := Some 2000\<rparr>"
  let ?s = "\<lparr>users = [?u], sent = []\<rparr>"
  let ?req = "demo_request\<lparr>params := [(''verificationToken'', ''c0ffee'')]\<rparr>"
  have ids: "distinct (map uid (users ?s))" by simp
  have u: "?u \<in> set (users ?s)" by simp
  have tok: "emailVerificationToken ?u = Some (sha256 demo_lib ''c0ffee'')"
    by (simp add: demo_lib_def)
  have exp: "emailVerificationExpiry ?u = Some 2000" "(1000::nat) < 2000" by simp_all
  have only: "\<forall>v\<in>set (users ?s).
                 emailVerificationToken v = Some (sha256 demo_lib ''c0ffee'') \<longrightarrow> v = ?u"
    by simp
  have req: "map_of (params ?req) ''verificationToken'' = Some ''c0ffee''" "''c0ffee'' \<noteq> []"
    by (simp_all add: demo_request_def)
  from verifyEmail_consumes_token_once[OF ids u tok exp only req]
  show ?thesis by (simp add: alice_def)
qed

section \<open>C6: the failures of \<open>verifyJWT\<close>\<close>

text \<open>
  C6, as stated, fails: a request without a credential and a request with a bad token
  both end in status 401, but with different messages, so the two conditions can be
  told apart.
\<close>

theorem verifyJWT_missing_credential_is_distinguishable:
  "verifyJWT demo_lib demo_env 5000 [alice] demo_request
     = Inl (ApiError 401 ''Unauthorized request'')
   \<and> verifyJWT demo_lib demo_env 5000 [alice]
         (demo_request\<lparr>headers := [(''Authorization'', ''Bearer garbage'')]\<rparr>)
     = Inl (ApiError 401 ''Invalid access token'')
   \<and> verifyJWT demo_lib demo_env 5000 [alice] demo_request
     \<noteq> verifyJWT demo_lib demo_env 5000 [alice]
         (demo_request\<lparr>headers := [(''Authorization'', ''Bearer garbage'')]\<rparr>)"
  by (simp add: verifyJWT_def verifyJWT_try_def bearer_token_def js_or_def jwt_verify_def
        demo_lib_def demo_env_def demo_decode_def demo_request_def)

text \<open>
  C6, amended. \<open>verifyJWT\<close> reads the credential from the \<open>accessToken\<close> cookie
  when it is present (and not empty), otherwise from the \<open>Authorization\<close> header with
  \<open>"Bearer "\<close> removed. Every failure is an \<open>ApiError 401\<close>: with the message
  \<open>Unauthorized request\<close> when there is no credential, and with the single message
  \<open>Invalid access token\<close> in every other case (bad signature, malformed or expired
  token, subject that resolves to no user). It succeeds exactly when the credential
  verifies and its subject is a stored user.
\<close>

theorem verifyJWT_failures:
  "(truthy (map_of (cookies req) ''accessToken'') \<longrightarrow>
      bearer_token req = map_of (cookies req) ''accessToken'')
   \<and> (\<not> truthy (map_of (cookies req) ''accessToken'') \<longrightarrow>
        bearer_token req =
          map_option (replace ''Bearer '' []) (map_of (headers req) ''Authorization''))
   \<and> (\<forall>e. verifyJWT L E now us req = Inl e \<longrightarrow>
          e = ApiError 401 (if truthy (bearer_token req) then ''Invalid access token''
                            else ''Unauthorized request''))
   \<and> ((\<exists>r. verifyJWT L E now us req = Inr r) \<longleftrightarrow>
        (\<exists>t c u. bearer_token req = Some t \<and> t \<noteq> []
           \<and> jwt_verify L t (ACCESS_TOKEN_SECRET E) now = Some c
           \<and> findById us (sub c) = Some u))"
proof (intro conjI impI allI)
  assume "truthy (map_of (cookies req) ''accessToken'')"
  then show "bearer_token req = map_of (cookies req) ''accessToken''"
    by (simp add: bearer_token_def js_or_def)
next
  assume "\<not> truthy (map_of (cookies req) ''accessToken'')"
  then show "bearer_token req =
          map_option (replace ''Bearer '' []) (map_of (headers req) ''Authorization'')"
    by (simp add: bearer_token_def js_or_def)
next
  fix e
  assume "verifyJWT L E now us req = Inl e"
  then show "e = ApiError 401 (if truthy (bearer_token req) then ''Invalid access token''
                            else ''Unauthorized request'')"
    by (cases "bearer_token req")
       (auto simp: verifyJWT_def split: if_splits sum.splits)
next
  show "(\<exists>r. verifyJWT L E now us req = Inr r) \<longleftrightarrow>
        (\<exists>t c u. bearer_token req = Some t \<and> t \<noteq> []
           \<and> jwt_verify L t (ACCESS_TOKEN_SECRET E) now = Some c
           \<and> findById us (sub c) = Some u)"
    by (cases "bearer_token req")
       (auto simp: verifyJWT_def verifyJWT_try_def split: if_splits sum.splits option.splits)
qed

theorem verifyJWT_failures_witness:
  "truthy (map_of (cookies (demo_request\<lparr>cookies := [(''accessToken'', ''garbage'')],
              headers := [(''Authorization'', ''Bearer as.u.t'')]\<rparr>)) ''accessToken'')
   \<and> bearer_token (demo_request\<lparr>cookies := [(''accessToken'', ''garbage'')],
              headers := [(''Authorization'', ''Bearer as.u.t'')]\<rparr>) = Some ''garbage''
   \<and> verifyJWT demo_lib demo_env 5000 [alice]
         (demo_request\<lparr>cookies := [(''accessToken'', ''garbage'')],
              headers := [(''Authorization'', ''Bearer as.u.t'')]\<rparr>)
       = Inl (ApiError 401 ''Invalid access token'')
   \<and> \<not> truthy (map_of (cookies (demo_request\<lparr>headers := [(''Authorization'', ''Bearer as.u.t'')]\<rparr>))
                ''accessToken'')
   \<and> bearer_token (demo_request\<lparr>headers := [(''Authorization'', ''Bearer as.u.t'')]\<rparr>)
       = Some ''as.u.t''"
proof -
  let ?req = "demo_request\<lparr>cookies := [(''accessToken'', ''garbage'')],
              headers := [(''Authorization'', ''Bearer as.u.t'')]\<rparr>"
  let ?req2 = "demo_request\<lparr>headers := [(''Authorization'', ''Bearer as.u.t'')]\<rparr>"
  have c: "truthy (map_of (cookies ?req) ''accessToken'')"
    by (simp add: demo_request_def)
  have n: "\<not> truthy (map_of (cookies ?req2) ''accessToken'')"
    by (simp add: demo_request_def)
  have fails: "\<exists>e. verifyJWT demo_lib demo_env 5000 [alice] ?req = Inl e"
    by (simp add: verifyJWT_def verifyJWT_try_def bearer_token_def js_or_def jwt_verify_def
        demo_lib_def demo_env_def demo_decode_def demo_request_def)
  from verifyJWT_failures[of ?req demo_lib demo_env 5000 "[alice]"] c fails
  have 1: "bearer_token ?req = Some ''garbage''"
    and 2: "verifyJWT demo_lib demo_env 5000 [alice] ?req
              = Inl (ApiError 401 ''Invalid access token'')"
    by (auto simp: demo_request_def)
  from verifyJWT_failures[of ?req2 demo_lib demo_env 5000 "[alice]"] n
  have 3: "bearer_token ?req2 = Some ''as.u.t''"
    by (simp add: demo_request_def)
  from c n 1 2 3 show ?thesis by blast
qed

section \<open>C7: the password is hashed on save exactly when it was modified\<close>

text \<open>
  C7. For every save of a user document, the stored password is recomputed as a bcrypt
  hash if and only if the password path was modified: the pre-save hook yields the hash
  of the assigned password when the path is modified and the password as it was
  otherwise; after \<open>save\<close> the stored document holds that hash in the first case and
  its previous password in the second; and assigning any of the other fields (refresh
  token, the two token pairs, the verification flag) never marks the password modified,
  so such saves do not hash again.
\<close>

theorem save_rehashes_password_iff_modified:
  "password (doc_fields (pre_save L d)) =
     (if isModified d Password then bcrypt_hash L (password (doc_fields d))
      else password (doc_fields d))
   \<and> (findById us (uid (doc_fields d)) = Some u \<longrightarrow>
        map_option password (findById (save L d us) (uid (doc_fields d))) =
          Some (if isModified d Password then bcrypt_hash L (password (doc_fields d))
                else password u))
   \<and> \<not> isModified
         (set_isEmailVerified b
           (set_emailVerificationExpiry e1
             (set_emailVerificationToken t1
               (set_forgotPasswordExpiry e2
                 (set_forgotPasswordToken t2
                   (set_refreshToken r (doc_of u)))))))
         Password"
proof (intro conjI impI)
  show "password (doc_fields (pre_save L d)) =
     (if isModified d Password then bcrypt_hash L (password (doc_fields d))
      else password (doc_fields d))"
    by (simp add: pre_save_def)
next
  assume "findById us (uid (doc_fields d)) = Some u"
  then show "map_option password (findById (save L d us) (uid (doc_fields d))) =
          Some (if isModified d Password then bcrypt_hash L (password (doc_fields d))
                else password u)"
    by (simp add: findById_save password_fold_copy_path isModified_def pre_save_def)
next
  show "\<not> isModified
         (set_isEmailVerified b
           (set_emailVerificationExpiry e1
             (set_emailVerificationToken t1
               (set_forgotPasswordExpiry e2
                 (set_forgotPasswordToken t2
                   (set_refreshToken r (doc_of u)))))))
         Password"
    by (simp add: isModified_def set_isEmailVerified_def set_emailVerificationExpiry_def
          set_emailVerificationToken_def set_forgotPasswordExpiry_def
          set_forgotPasswordToken_def set_refreshToken_def markModified_def doc_of_def)
qed

theorem save_rehashes_password_iff_modified_witness:
  "findById [alice] (uid (doc_fields (set_password ''new'' (doc_of alice)))) = Some alice
   \<and> map_option password
         (findById (save demo_lib (set_password ''new'' (doc_of alice)) [alice])
            (uid (doc_fields (set_password ''new'' (doc_of alice)))))
       = Some ''$2b$10$new''"
  using save_rehashes_password_iff_modified
          [of demo_lib "set_password ''new'' (doc_of alice)" "[alice]" alice]
  by (simp add: findById_def findOne_def set_password_def doc_of_def alice_def
        markModified_def isModified_def demo_lib_def)

section \<open>C8: project permissions\<close>

text \<open>
  C8. For a request with an authenticated principal \<open>i\<close>:
  \<open>validateProjectPermission roles\<close> fails with \<open>ApiError 400\<close> when
  \<open>projectId\<close> is missing; for a \<open>projectId\<close> that denotes the project \<open>p\<close> it
  fails with \<open>ApiError 400\<close> when no membership of \<open>i\<close> in \<open>p\<close> exists, and when
  one exists it fails with \<open>ApiError 403\<close> if the member's role is not among \<open>roles\<close>
  and otherwise calls \<open>next()\<close> with the role attached to the principal.
\<close>

theorem validateProjectPermission_outcomes:
  assumes pr: "req_user req = Some pr" "principal_id (Some pr) = Some i"
  shows "(\<not> truthy (map_of (params req) ''projectId'') \<longrightarrow>
            validateProjectPermission L roles ms req =
              Inl (ApiError 400 ''project id is missing''))
       \<and> (map_of (params req) ''projectId'' = Some pid \<and> pid \<noteq> [] \<and> objectId L pid = Some p \<longrightarrow>
            ((\<forall>m\<in>set ms. \<not> (member_project m = p \<and> member_user m = i)) \<longrightarrow>
               validateProjectPermission L roles ms req =
                 Inl (ApiError 400 ''project not found''))
          \<and> (\<forall>m. find (\<lambda>m. member_project m = p \<and> member_user m = i) ms = Some m \<longrightarrow>
                validateProjectPermission L roles ms req =
                  (if role m \<in> set roles
                   then Inr (req\<lparr>req_user := Some (AList.update ''role'' (Str (role m)) pr)\<rparr>)
                   else Inl (ApiError 403
                          ''You do not have permission to perform this action''))))"
proof (intro conjI impI allI)
  assume "\<not> truthy (map_of (params req) ''projectId'')"
  then show "validateProjectPermission L roles ms req =
               Inl (ApiError 400 ''project id is missing'')"
    by (cases "map_of (params req) ''projectId''")
       (simp_all add: validateProjectPermission_def)
next
  assume a: "map_of (params req) ''projectId'' = Some pid \<and> pid \<noteq> [] \<and> objectId L pid = Some p"
    and b: "\<forall>m\<in>set ms. \<not> (member_project m = p \<and> member_user m = i)"
  from b have "find (\<lambda>m. member_project m = p \<and> member_user m = i) ms = None"
    unfolding find_None_iff by blast
  with a pr show "validateProjectPermission L roles ms req =
                    Inl (ApiError 400 ''project not found'')"
    by (simp add: validateProjectPermission_def)
next
  fix m
  assume a: "map_of (params req) ''projectId'' = Some pid \<and> pid \<noteq> [] \<and> objectId L pid = Some p"
    and b: "find (\<lambda>m. member_project m = p \<and> member_user m = i) ms = Some m"
  with pr show "validateProjectPermission L roles ms req =
                  (if role m \<in> set roles
                   then Inr (req\<lparr>req_user := Some (AList.update ''role'' (Str (role m)) pr)\<rparr>)
                   else Inl (ApiError 403
                          ''You do not have permission to perform this action''))"
    by (simp add: validateProjectPermission_def Let_def)
qed

theorem validateProjectPermission_outcomes_witness:
  "validateProjectPermission demo_lib [''admin'']
     [\<lparr>member_user = 1, member_project = 7, role = ''member''\<rparr>,
      \<lparr>member_user = 2, member_project = 7, role = ''admin''\<rparr>]
     (demo_request\<lparr>params := [(''projectId'', ''p7'')], req_user := Some [(''_id'', Oid 1)]\<rparr>)
   = Inl (ApiError 403 ''You do not have permission to perform this action'')
   \<and> validateProjectPermission demo_lib [''admin'']
     [\<lparr>member_user = 1, member_project = 7, role = ''member''\<rparr>,
      \<lparr>member_user = 2, member_project = 7, role = ''admin''\<rparr>]
     (demo_request\<lparr>params := [(''projectId'', ''p7'')], req_user := Some [(''_id'', Oid 2)]\<rparr>)
   = Inr (demo_request\<lparr>params := [(''projectId'', ''p7'')],
            req_user := Some [(''_id'', Oid 2), (''role'', Str ''admin'')]\<rparr>)
   \<and> validateProjectPermission demo_lib [''admin'']
     [\<lparr>member_user = 1, member_project = 7, role = ''member''\<rparr>,
      \<lparr>member_user = 2, member_project = 7, role = ''admin''\<rparr>]
     (demo_request\<lparr>params := [(''projectId'', ''p7'')], req_user := Some [(''_id'', Oid 3)]\<rparr>)
   = Inl (ApiError 400 ''project not found'')
   \<and> validateProjectPermission demo_lib [''admin'']
     [\<lparr>member_user = 1, member_project = 7, role = ''member''\<rparr>,
      \<lparr>member_user = 2, member_project = 7, role = ''admin''\<rparr>]
     (demo_request\<lparr>req_user := Some [(''_id'', Oid 1)]\<rparr>)
   = Inl (ApiError 400 ''project id is missing'')"
proof -
  let ?ms = "[\<lparr>member_user = 1, member_project = 7, role = ''member''\<rparr>,
              \<lparr>member_user = 2, member_project = 7, role = ''admin''\<rparr>]"
  let ?req = "\<lambda>i. (demo_request\<lparr>params := [(''projectId'', ''p7'')],
                                   req_user := Some [(''_id'', Oid i)]\<rparr>)"
  let ?bare = "demo_request\<lparr>req_user := Some [(''_id'', Oid 1)]\<rparr>"
  have pid: "map_of (params (?req i)) ''projectId'' = Some ''p7'' \<and> ''p7'' \<noteq> []
               \<and> objectId demo_lib ''p7'' = Some 7" for i
    by (simp add: demo_request_def demo_lib_def)
  have pr: "req_user (?req i) = Some [(''_id'', Oid i)]"
    "principal_id (Some [(''_id'', Oid i)]) = Some i" for i
    by simp_all
  have f1: "find (\<lambda>m. member_project m = 7 \<and> member_user m = 1) ?ms
              = Some \<lparr>member_user = 1, member_project = 7, role = ''member''\<rparr>"
    by simp
  have f2: "find (\<lambda>m. member_project m = 7 \<and> member_user m = 2) ?ms
              = Some \<lparr>member_user = 2, member_project = 7, role = ''admin''\<rparr>"
    by simp
  have f3: "\<forall>m\<in>set ?ms. \<not> (member_project m = 7 \<and> member_user m = 3)"
    by simp
  have m0: "\<not> truthy (map_of (params ?bare) ''projectId'')"
    by (simp add: demo_request_def)
  from validateProjectPermission_outcomes
         [OF pr[of 1], where L = demo_lib and roles = "[''admin'']" and ms = "?ms"
            and pid = "''p7''" and p = 7]
       pid[of 1] f1
  have 1: "validateProjectPermission demo_lib [''admin''] ?ms (?req 1)
             = Inl (ApiError 403 ''You do not have permission to perform this action'')"
    by simp
  from validateProjectPermission_outcomes
         [OF pr[of 2], where L = demo_lib and roles = "[''admin'']" and ms = "?ms"
            and pid = "''p7''" and p = 7]
       pid[of 2] f2
  have 2: "validateProjectPermission demo_lib [''admin''] ?ms (?req 2)
             = Inr (demo_request\<lparr>params := [(''projectId'', ''p7'')],
                      req_user := Some [(''_id'', Oid 2), (''role'', Str ''admin'')]\<rparr>)"
    by simp
  from validateProjectPermission_outcomes
         [OF pr[of 3], where L = demo_lib and roles = "[''admin'']" and ms = "?ms"
            and pid = "''p7''" and p = 7]
       pid[of 3] f3
  have 3: "validateProjectPermission demo_lib [''admin''] ?ms (?req 3)
             = Inl (ApiError 400 ''project not found'')"
    by blast
  from validateProjectPermission_outcomes
         [of "?bare" "[(''_id'', Oid 1)]" 1 demo_lib "[''admin'']" "?ms"] m0
  have 4: "validateProjectPermission demo_lib [''admin''] ?ms ?bare
             = Inl (ApiError 400 ''project id is missing'')"
    by simp
  from 1 2 3 4 show ?thesis by simp
qed

section \<open>C9: changing the password of a user that no longer exists\<close>

text \<open>
  C9. When the record of the authenticated user is no longer in the collection,
  \<open>changeCurrentPassword\<close> does not fail with a not-found error: it throws the
  \<open>TypeError\<close> of the dereferenced \<open>null\<close> before anything is written,
  \<open>asyncHandler\<close> passes it to \<open>next\<close>, and the boundary answers with status 500.
\<close>

theorem changeCurrentPassword_vanished_user:
  assumes "principal_id (req_user req) = Some i" and "findById (users s) i = None"
  shows "changeCurrentPassword L s req = Inl (Thrown ''TypeError'')
       \<and> asyncHandler (changeCurrentPassword L s) req = Next (Thrown ''TypeError'')
       \<and> boundary_status (Thrown ''TypeError'') = 500"
  using assms by (simp add: changeCurrentPassword_def asyncHandler_def Let_def)

theorem changeCurrentPassword_vanished_user_witness:
  "principal_id (req_user (demo_request\<lparr>req_user := Some (sanitized alice)\<rparr>)) = Some 1
   \<and> findById (users \<lparr>users = [], sent = []\<rparr>) 1 = None
   \<and> asyncHandler (changeCurrentPassword demo_lib \<lparr>users = [], sent = []\<rparr>)
         (demo_request\<lparr>req_user := Some (sanitized alice),
                        body := [(''oldPassword'', ''pw123''), (''newPassword'', ''pw456'')]\<rparr>)
       = Next (Thrown ''TypeError'')
   \<and> boundary_status (Thrown ''TypeError'') = 500"
proof -
  let ?req = "demo_request\<lparr>req_user := Some (sanitized alice),
                        body := [(''oldPassword'', ''pw123''), (''newPassword'', ''pw456'')]\<rparr>"
  have p: "principal_id (req_user ?req) = Some 1"
    by (simp add: sanitized_def select_minus_def toObject_def alice_def)
  have n: "findById (users \<lparr>users = [], sent = []\<rparr>) 1 = None"
    by (simp add: findById_Nil)
  from changeCurrentPassword_vanished_user[OF p n, of demo_lib] p n
  show ?thesis by simp
qed

section \<open>C10: the \<open>Authorization\<close> header with and without its prefix\<close>

lemma replace_absent:
  assumes "\<And>k. take (length pat) (drop k s) \<noteq> pat" "pat \<noteq> []"
  shows "replace pat rep s = s"
  using assms(1)
proof (induction s)
  case Nil
  with assms(2) show ?case by simp
next
  case (Cons c cs)
  from Cons.prems[of 0] have "take (length pat) (c # cs) \<noteq> pat" by simp
  moreover have "replace pat rep cs = cs"
  proof (rule Cons.IH)
    fix k
    from Cons.prems[of "Suc k"] show "take (length pat) (drop k cs) \<noteq> pat" by simp
  qed
  ultimately show ?case by simp
qed

lemma replace_Bearer_bare:
  assumes "CHR '' '' \<notin> set t"
  shows "replace ''Bearer '' [] t = t"
proof (rule replace_absent)
  fix k
  show "take (length ''Bearer '') (drop k t) \<noteq> ''Bearer ''"
  proof
    assume eq: "take (length ''Bearer '') (drop k t) = ''Bearer ''"
    have "CHR '' '' \<in> set ''Bearer ''" by simp
    with eq have "CHR '' '' \<in> set (take (length ''Bearer '') (drop k t))" by simp
    then have "CHR '' '' \<in> set t"
      by (meson in_set_takeD in_set_dropD)
    with assms show False by simp
  qed
qed simp

lemma replace_Bearer_prefixed: "replace ''Bearer '' [] (''Bearer '' @ t) = t"
  by simp

text \<open>
  C10. For a request without an \<open>accessToken\<close> cookie and a valid token \<open>t\<close> (it
  verifies, its subject is a stored user, and like every signed token it contains no
  space), \<open>verifyJWT\<close> succeeds for the header \<open>t\<close> as well as for the header
  \<open>"Bearer " + t\<close>.
\<close>

theorem verifyJWT_accepts_bare_and_prefixed_header:
  assumes nocookie: "\<not> truthy (map_of (cookies req) ''accessToken'')"
    and t: "t \<noteq> []" "CHR '' '' \<notin> set t"
    and valid: "jwt_verify L t (ACCESS_TOKEN_SECRET E) now = Some c"
    and found: "findById us (sub c) = Some u"
    and hdr: "map_of (headers req) ''Authorization'' = Some h"
    and form: "h = t \<or> h = ''Bearer '' @ t"
  shows "verifyJWT L E now us req = Inr (req\<lparr>req_user := Some (sanitized u)\<rparr>)"
proof -
  from form t(2) have "replace ''Bearer '' [] h = t"
    using replace_Bearer_bare replace_Bearer_prefixed by blast
  with nocookie hdr have "bearer_token req = Some t"
    by (simp add: bearer_token_def js_or_def)
  with t(1) valid found show ?thesis
    by (simp add: verifyJWT_def verifyJWT_try_def)
qed

theorem verifyJWT_accepts_bare_and_prefixed_header_witness:
  "verifyJWT demo_lib demo_env 5000 [alice]
     (demo_request\<lparr>headers := [(''Authorization'', ''as.u.t'')]\<rparr>)
   = Inr (demo_request\<lparr>headers := [(''Authorization'', ''as.u.t'')],
                         req_user := Some (sanitized alice)\<rparr>)
   \<and> verifyJWT demo_lib demo_env 5000 [alice]
     (demo_request\<lparr>headers := [(''Authorization'', ''Bearer as.u.t'')]\<rparr>)
   = Inr (demo_request\<lparr>headers := [(''Authorization'', ''Bearer as.u.t'')],
                         req_user := Some (sanitized alice)\<rparr>)"
proof -
  let ?c = "\<lparr>sub = 1, claim_email = None, claim_username = None\<rparr>"
  have nocookie: "\<not> truthy (map_of (cookies (demo_request\<lparr>headers := hs\<rparr>)) ''accessToken'')"
    for hs by (simp add: demo_request_def)
  have t: "''as.u.t'' \<noteq> []" "CHR '' '' \<notin> set ''as.u.t''" by simp_all
  have valid: "jwt_verify demo_lib ''as.u.t'' (ACCESS_TOKEN_SECRET demo_env) 5000 = Some ?c"
    by code_simp
  have found: "findById [alice] (sub ?c) = Some alice"
    by (simp add: findById_Cons alice_def)
  have hdr: "map_of (headers (demo_request\<lparr>headers := [(''Authorization'', h)]\<rparr>))
               ''Authorization'' = Some h" for h
    by simp
  from verifyJWT_accepts_bare_and_prefixed_header
         [OF nocookie t valid found hdr, of "''as.u.t''"]
       verifyJWT_accepts_bare_and_prefixed_header
         [OF nocookie t valid found hdr, of "''Bearer as.u.t''"]
  show ?thesis by simp
qed

end
